theory Spec2Isabelle
  imports Complex_Main "HOL-Library.Multiset"
begin

section \<open>Conventions of the embedding\<close>

text \<open>
  The launchpad is TypeScript. Its amounts, reserves and prices are JavaScript numbers
  (IEEE-754 doubles) or decimal strings read back with \<^verbatim>\<open>parseFloat\<close>. The
  embedding uses exact rationals (\<^typ>\<open>rat\<close>) for them and stores a numeric text
  column as the number it denotes. Two consequences are kept in view throughout:
  \<^item> a JavaScript division by zero yields an infinity or NaN, a HOL division by zero
    yields 0; a statement about a quotient therefore carries the hypothesis that the
    divisor is not zero, or the quotient is modelled with its infinities;
  \<^item> an operation on doubles rounds its exact result; the statements at concrete
    inputs below name values that the program computes without rounding (integers below
    \<open>2^53\<close> and small dyadic fractions), so that the rational value is the value of
    the program.
  Where a claim turns on rounding or on a quotient that need not be finite, the
  arithmetic of doubles is modelled itself: in the price that \<^verbatim>\<open>updatePoolReserves\<close>
  stores and in the client-side quote.
  Timestamps (\<^verbatim>\<open>Date\<close>) are milliseconds as \<^typ>\<open>int\<close>. A JavaScript
  \<^verbatim>\<open>Map\<close> iterates in insertion order, so the maps of the in-memory store are
  association lists in insertion order. Calls that leave the process (RPC, HTTP, wallet
  signing) are inputs of the model: the caller says what they returned or that they threw.
\<close>

section \<open>Rounding to a double\<close>

text \<open>
  \<open>double x\<close> is the exact number \<open>x\<close> rounded to the nearest number with a 53-bit
  significand, a tie going to the even significand: IEEE-754 binary64, round to nearest
  even, for magnitudes in the normal range (between \<open>2^-1022\<close> and \<open>2^1024\<close>; the
  exponent of the model is unbounded).
\<close>

text \<open>The number of binary digits of a natural number.\<close>

fun bitlength :: "nat \<Rightarrow> nat" where
  "bitlength n = (if n = 0 then 0 else Suc (bitlength (n div 2)))"

declare bitlength.simps [simp del]

definition pow2 :: "int \<Rightarrow> rat" where
  "pow2 e = (if 0 \<le> e then 2 ^ nat e else 1 / 2 ^ nat (- e))"

text \<open>For \<open>x > 0\<close>, the exponent \<open>n\<close> with \<open>2^n \<le> x < 2^(n+1)\<close>.\<close>

definition ilog2 :: "rat \<Rightarrow> int" where
  "ilog2 x = (if 1 \<le> x then int (bitlength (nat \<lfloor>x\<rfloor>)) - 1
              else - int (bitlength (nat \<lceil>1 / x\<rceil> - 1)))"

definition round_half_even :: "rat \<Rightarrow> int" where
  "round_half_even x =
     (let f = \<lfloor>x\<rfloor>; d = x - of_int f
      in if d < 1 / 2 then f else if 1 / 2 < d then f + 1 else if even f then f else f + 1)"

definition double :: "rat \<Rightarrow> rat" where
  "double x =
     (if x = 0 then 0
      else (let e = ilog2 \<bar>x\<bar> - 52;
                m = round_half_even (\<bar>x\<bar> / pow2 e)
            in sgn x * of_int m * pow2 e))"

text \<open>
  \<^verbatim>\<open>parseFloat\<close> on the decimal text of the number \<open>r\<close>: the double nearest to it.
\<close>

definition parseFloat :: "rat \<Rightarrow> rat" where
  "parseFloat r = double r"

text \<open>
  A JavaScript number that may fail to be finite. The quotient \<^verbatim>\<open>a / b\<close> of two
  finite doubles is the rounded quotient when \<open>b\<close> is not zero; for the divisor zero
  (here always the positive zero, a difference \<^verbatim>\<open>x - x\<close>) it is an infinity with the
  sign of \<open>a\<close>, or \<^verbatim>\<open>NaN\<close> when \<open>a\<close> is zero too.
\<close>

datatype number = Finite rat | PosInfinity | NegInfinity | NotANumber

definition js_divide :: "rat \<Rightarrow> rat \<Rightarrow> number" where
  "js_divide a b =
     (if b \<noteq> 0 then Finite (double (a / b))
      else if 0 < a then PosInfinity
      else if a < 0 then NegInfinity
      else NotANumber)"

section \<open>The in-memory store (server/storage.ts)\<close>

subsection \<open>JavaScript Map\<close>

text \<open>\<^verbatim>\<open>Map.set\<close>: an existing key keeps its position, a new key goes to the end.\<close>

primrec map_set :: "'k \<Rightarrow> 'v \<Rightarrow> ('k \<times> 'v) list \<Rightarrow> ('k \<times> 'v) list" where
  "map_set k v [] = [(k, v)]"
| "map_set k v (e # es) = (if fst e = k then (k, v) # es else e # map_set k v es)"

definition map_get :: "('k \<times> 'v) list \<Rightarrow> 'k \<Rightarrow> 'v option" where
  "map_get m k = map_of m k"

definition map_values :: "('k \<times> 'v) list \<Rightarrow> 'v list" where
  "map_values m = map snd m"

subsection \<open>Rows (shared/schema.ts)\<close>

text \<open>
  The rows carry the columns the trading paths read or write; the descriptive columns of
  a token (name, description, links, creator, initial price, maximal supply, holders) are
  never touched by them and are left out.
\<close>

record Token =
  t_id :: nat
  t_symbol :: string
  t_mintAddress :: "string option"
  t_currentPrice :: rat
  t_currentSupply :: rat
  t_marketCap :: rat
  t_volume24h :: rat
  t_bondingCurveProgress :: rat
  t_isGraduated :: bool
  t_createdAt :: int

datatype trade_type = Buy | Sell

record Trade =
  tr_id :: nat
  tr_tokenId :: nat
  tr_user :: string
  tr_type :: trade_type
  tr_amount :: rat
  tr_price :: rat
  tr_tokensAmount :: rat
  tr_signature :: string
  tr_createdAt :: int

record Portfolio =
  pf_id :: nat
  pf_user :: string
  pf_tokenId :: nat
  pf_amount :: rat
  pf_averagePrice :: rat
  pf_updatedAt :: int

record Pool =
  p_id :: nat
  p_tokenMint :: string
  p_baseReserve :: rat
  p_quoteReserve :: rat
  p_totalSupply :: rat
  p_currentPrice :: number
  p_volume24h :: rat
  p_isGraduated :: bool
  p_createdAt :: int


record InsertTrade =
  it_tokenId :: nat
  it_user :: string
  it_type :: trade_type
  it_amount :: rat
  it_price :: rat
  it_tokensAmount :: rat
  it_signature :: string

record MemStorage =
  tokens :: "(nat \<times> Token) list"
  trades :: "(nat \<times> Trade) list"
  portfolios :: "(string \<times> Portfolio) list"
  pools :: "(nat \<times> Pool) list"
  currentTradeId :: nat
  currentPortfolioId :: nat
  currentPoolId :: nat

text \<open>The constructor: empty maps, every counter at 1.\<close>

definition newMemStorage :: MemStorage where
  "newMemStorage = \<lparr> tokens = [], trades = [], portfolios = [], pools = [],
     currentTradeId = 1, currentPortfolioId = 1, currentPoolId = 1 \<rparr>"

subsection \<open>Trades\<close>

text \<open>
  \<^verbatim>\<open>getTrades\<close> filters the values of the trade map and sorts them with the
  comparator \<^verbatim>\<open>b.createdAt - a.createdAt\<close>. \<^verbatim>\<open>Array.prototype.sort\<close> is
  stable, so the result is the stable sort by descending creation time: a stable
  insertion sort on the negated timestamp.
\<close>

definition getTrades :: "MemStorage \<Rightarrow> nat \<Rightarrow> Trade list" where
  "getTrades s tokenId =
     sort_key (\<lambda>t. - tr_createdAt t)
       (filter (\<lambda>trade. tr_tokenId trade = tokenId) (map_values (trades s)))"

subsection \<open>Pools\<close>

fun find_first :: "('a \<Rightarrow> bool) \<Rightarrow> 'a list \<Rightarrow> 'a option" where
  "find_first P [] = None"
| "find_first P (x # xs) = (if P x then Some x else find_first P xs)"

definition getPoolByMint :: "MemStorage \<Rightarrow> string \<Rightarrow> Pool option" where
  "getPoolByMint s tokenMint =
     find_first (\<lambda>pool. p_tokenMint pool = tokenMint) (map_values (pools s))"


text \<open>
  \<^verbatim>\<open>updatePoolReserves\<close> mutates the pool object it found and stores it again
  under \<^verbatim>\<open>pool.id\<close>. \<open>None\<close> is \<^verbatim>\<open>undefined\<close>. The reserves are stored
  as they are supplied (texts of finite numbers, like the total supply); the price is
  computed in doubles from the texts read back with \<^verbatim>\<open>parseFloat\<close>, and the
  column holds the text of the result, which is \<^verbatim>\<open>Infinity\<close>,
  \<^verbatim>\<open>-Infinity\<close> or \<^verbatim>\<open>NaN\<close> when the new base reserve equals the total
  supply.
\<close>

definition updatePoolReserves ::
  "MemStorage \<Rightarrow> string \<Rightarrow> rat \<Rightarrow> rat \<Rightarrow> Pool option \<times> MemStorage" where
  "updatePoolReserves s tokenMint baseReserve quoteReserve =
     (case getPoolByMint s tokenMint of
        Some pool \<Rightarrow>
          (let circulating = double (parseFloat (p_totalSupply pool) - parseFloat baseReserve);
               pool' = pool\<lparr> p_baseReserve := baseReserve, p_quoteReserve := quoteReserve,
                              p_currentPrice := js_divide (parseFloat quoteReserve) circulating \<rparr>
           in (Some pool', s\<lparr> pools := map_set (p_id pool') pool' (pools s) \<rparr>))
      | None \<Rightarrow> (None, s))"

text \<open>
  Every pool is stored under its own id (\<^verbatim>\<open>createPool\<close> is the only writer of new
  keys), and the ids in use are below the counter.
\<close>

definition pools_wf :: "MemStorage \<Rightarrow> bool" where
  "pools_wf s \<longleftrightarrow>
     list_all (\<lambda>e. p_id (snd e) = fst e \<and> fst e < currentPoolId s) (pools s)
     \<and> distinct (map fst (pools s))"


subsection \<open>Tokens, trade records and portfolios\<close>

definition getToken :: "MemStorage \<Rightarrow> nat \<Rightarrow> Token option" where
  "getToken s i = map_get (tokens s) i"

definition getAllTokens :: "MemStorage \<Rightarrow> Token list" where
  "getAllTokens s = sort_key (\<lambda>t. - t_createdAt t) (map_values (tokens s))"

text \<open>
  \<^verbatim>\<open>updateToken(id, updates)\<close> stores \<^verbatim>\<open>{...token, ...updates}\<close>; the partial
  row \<open>updates\<close> is the function that overwrites the fields it names.
\<close>

definition updateToken ::
  "MemStorage \<Rightarrow> nat \<Rightarrow> (Token \<Rightarrow> Token) \<Rightarrow> Token option \<times> MemStorage" where
  "updateToken s i updates =
     (case map_get (tokens s) i of
        None \<Rightarrow> (None, s)
      | Some token \<Rightarrow>
          (let updatedToken = updates token
           in (Some updatedToken, s\<lparr> tokens := map_set i updatedToken (tokens s) \<rparr>)))"

definition createTrade :: "MemStorage \<Rightarrow> int \<Rightarrow> InsertTrade \<Rightarrow> Trade \<times> MemStorage" where
  "createTrade s now insertTrade =
     (let i = currentTradeId s;
          trade = \<lparr> tr_id = i, tr_tokenId = it_tokenId insertTrade, tr_user = it_user insertTrade,
                    tr_type = it_type insertTrade, tr_amount = it_amount insertTrade,
                    tr_price = it_price insertTrade,
                    tr_tokensAmount = it_tokensAmount insertTrade,
                    tr_signature = it_signature insertTrade, tr_createdAt = now \<rparr>;
          s1 = s\<lparr> currentTradeId := i + 1, trades := map_set i trade (trades s) \<rparr>
      in case getToken s1 (it_tokenId insertTrade) of
           None \<Rightarrow> (trade, s1)
         | Some token \<Rightarrow>
             (let newVolume = t_volume24h token + it_amount insertTrade;
                  newCurrentSupply =
                    (if it_type insertTrade = Buy
                     then t_currentSupply token + it_tokensAmount insertTrade
                     else t_currentSupply token - it_tokensAmount insertTrade);
                  newMarketCap = newCurrentSupply * it_price insertTrade;
                  bondingCurveProgress = min (newMarketCap / 69) 100
              in (trade,
                  snd (updateToken s1 (it_tokenId insertTrade)
                         (\<lambda>t. t\<lparr> t_currentPrice := it_price insertTrade,
                                  t_currentSupply := newCurrentSupply,
                                  t_marketCap := newMarketCap,
                                  t_volume24h := newVolume,
                                  t_bondingCurveProgress := bondingCurveProgress \<rparr>)))))"

fun string_of_nat :: "nat \<Rightarrow> string" where
  "string_of_nat n =
     (if n < 10 then [char_of (48 + n)]
      else string_of_nat (n div 10) @ [char_of (48 + n mod 10)])"

declare string_of_nat.simps [simp del]

definition updatePortfolio ::
  "MemStorage \<Rightarrow> int \<Rightarrow> string \<Rightarrow> nat \<Rightarrow> rat \<Rightarrow> rat \<Rightarrow> Portfolio \<times> MemStorage" where
  "updatePortfolio s now user tokenId amount averagePrice =
     (let key = user @ ''-'' @ string_of_nat tokenId
      in case map_get (portfolios s) key of
           Some existing \<Rightarrow>
             (let updatedPortfolio = existing\<lparr> pf_amount := amount,
                    pf_averagePrice := averagePrice, pf_updatedAt := now \<rparr>
              in (updatedPortfolio,
                  s\<lparr> portfolios := map_set key updatedPortfolio (portfolios s) \<rparr>))
         | None \<Rightarrow>
             (let i = currentPortfolioId s;
                  portfolio = \<lparr> pf_id = i, pf_user = user, pf_tokenId = tokenId,
                                pf_amount = amount, pf_averagePrice = averagePrice,
                                pf_updatedAt = now \<rparr>
              in (portfolio,
                  s\<lparr> currentPortfolioId := i + 1,
                     portfolios := map_set key portfolio (portfolios s) \<rparr>)))"

section \<open>The server-side curve (server/solana-integration.ts)\<close>


text \<open>The number of lamports in one SOL (a constant of the Solana library).\<close>

definition LAMPORTS_PER_SOL :: rat where
  "LAMPORTS_PER_SOL = 1000000000"




section \<open>The bonding-curve services\<close>

subsection \<open>NewBondingCurveService\<close>









subsection \<open>SimpleRaydiumTrading\<close>

record SimpleRaydiumTrade =
  srt_tokenMint :: string
  srt_amountIn :: rat
  srt_walletAddress :: string

record SimpleRaydiumResult =
  srr_success :: bool
  srr_tokensOut :: rat
  srr_solTransferred :: rat
  srr_priceImpact :: rat
  srr_transactionBuffer :: string
  srr_error :: "string option"

definition calculateTokensOut :: "rat \<Rightarrow> rat" where
  "calculateTokensOut solAmount =
     (let baseRate = (25 :: rat);
          currentSolCollected = (31 / 2 :: rat);
          totalWithNew = currentSolCollected + solAmount;
          priceMultiplier = 1 + (totalWithNew / 69) * (1 / 2);
          effectiveRate = baseRate / priceMultiplier
      in of_int \<lfloor>solAmount * effectiveRate\<rfloor>)"

definition calculatePriceImpact_simple :: "rat \<Rightarrow> rat" where
  "calculatePriceImpact_simple solAmount = min (solAmount * (1 / 10)) 5"

text \<open>
  \<^verbatim>\<open>SimpleRaydiumTrading.executeTrade\<close>; \<open>built\<close> is \<open>Inr\<close> the serialised
  transaction, or \<open>Inl\<close> the message of the error an external step threw.
\<close>

definition simpleExecuteTrade :: "string + string \<Rightarrow> SimpleRaydiumTrade \<Rightarrow> SimpleRaydiumResult" where
  "simpleExecuteTrade built params =
     (let tokensOut = calculateTokensOut (srt_amountIn params);
          priceImpact = calculatePriceImpact_simple (srt_amountIn params)
      in case built of
           Inr transactionBuffer \<Rightarrow>
             \<lparr> srr_success = True, srr_tokensOut = tokensOut,
               srr_solTransferred = srt_amountIn params, srr_priceImpact = priceImpact,
               srr_transactionBuffer = transactionBuffer, srr_error = None \<rparr>
         | Inl message \<Rightarrow>
             \<lparr> srr_success = False, srr_tokensOut = 0, srr_solTransferred = 0,
               srr_priceImpact = 0, srr_transactionBuffer = [],
               srr_error = Some (if message = [] then ''Trade execution failed'' else message) \<rparr>)"

section \<open>The trade route (POST /api/tokens/trade)\<close>

record TradeRequest =
  rq_tokenMint :: string
  rq_amountIn :: rat
  rq_isBuy :: bool
  rq_user :: string
  rq_walletAddress :: string

text \<open>What \<^verbatim>\<open>jupiterService.executeRealSwap\<close> returned (it catches its own errors).\<close>

record JupiterResult =
  j_success :: bool
  j_amountOut :: "rat option"
  j_priceImpact :: "rat option"
  j_transactionBuffer :: "string option"
  j_error :: "string option"

record TradeReply =
  rp_success :: bool
  rp_signature :: string
  rp_tokensAmount :: rat
  rp_newPrice :: rat
  rp_priceImpact :: rat
  rp_solCollected :: rat
  rp_isGraduated :: bool
  rp_transactionBuffer :: "string option"
  rp_bondingCurve :: bool
  rp_trade :: Trade

text \<open>A response: an error status with its message, or the JSON body of a success.\<close>

datatype Response = Failure nat string | Success TradeReply

definition isSuccess :: "Response \<Rightarrow> bool" where
  "isSuccess r = (case r of Success _ \<Rightarrow> True | Failure _ _ \<Rightarrow> False)"

text \<open>\<^verbatim>\<open>x || d\<close> on an optional number and on an optional string.\<close>

definition or_num :: "rat option \<Rightarrow> rat \<Rightarrow> rat" where
  "or_num x d = (case x of None \<Rightarrow> d | Some v \<Rightarrow> (if v = 0 then d else v))"

definition or_str :: "string option \<Rightarrow> string \<Rightarrow> string" where
  "or_str x d = (case x of None \<Rightarrow> d | Some v \<Rightarrow> (if v = [] then d else v))"

text \<open>
  The object \<^verbatim>\<open>result\<close> of the route: the Jupiter result for a graduated token,
  the object built from the bonding-curve trade otherwise. A field the object does not
  have is \<open>None\<close>.
\<close>

record RouteResult =
  rr_amountOut :: "rat option"
  rr_executionPrice :: "rat option"
  rr_tokensAmount :: "rat option"
  rr_newPrice :: "rat option"
  rr_priceImpact :: "rat option"
  rr_solCollected :: "rat option"
  rr_isGraduated :: "bool option"
  rr_transactionBuffer :: "string option"
  rr_signature :: "string option"

definition jupiterRouteResult :: "JupiterResult \<Rightarrow> RouteResult" where
  "jupiterRouteResult j =
     \<lparr> rr_amountOut = j_amountOut j, rr_executionPrice = None, rr_tokensAmount = None,
       rr_newPrice = None, rr_priceImpact = j_priceImpact j, rr_solCollected = None,
       rr_isGraduated = None, rr_transactionBuffer = j_transactionBuffer j,
       rr_signature = None \<rparr>"

definition bondingRouteResult :: "rat \<Rightarrow> SimpleRaydiumResult \<Rightarrow> RouteResult" where
  "bondingRouteResult amountIn tradeResult =
     (let currentSolCollected = 31 / 2 + amountIn;
          isGraduating = (currentSolCollected \<ge> 69)
      in \<lparr> rr_amountOut = None, rr_executionPrice = None,
           rr_tokensAmount = Some (srr_tokensOut tradeResult),
           rr_newPrice = Some (1 / 25),
           rr_priceImpact = Some (srr_priceImpact tradeResult),
           rr_solCollected = Some currentSolCollected,
           rr_isGraduated = Some isGraduating,
           rr_transactionBuffer = Some (srr_transactionBuffer tradeResult),
           rr_signature = None \<rparr>)"

text \<open>
  The part of the route after \<^verbatim>\<open>result\<close> is known: the trade record, the token
  update, the portfolio and the reply. \<open>token\<close> is the row read before the trade; the
  route keeps using it after \<^verbatim>\<open>createTrade\<close> has replaced the stored row.
\<close>

definition recordTrade ::
  "MemStorage \<Rightarrow> int \<Rightarrow> TradeRequest \<Rightarrow> Token \<Rightarrow> RouteResult \<Rightarrow> Response \<times> MemStorage" where
  "recordTrade s now req token result =
     (let amountIn = rq_amountIn req;
          tokensAmount =
            (if t_isGraduated token then or_num (rr_amountOut result) 0
             else \<bar>or_num (rr_tokensAmount result) 0\<bar>);
          tradePrice =
            (if t_isGraduated token then or_num (rr_executionPrice result) 0
             else or_num (rr_newPrice result) 0);
          transactionBuffer = rr_transactionBuffer result;
          stamp = ''trade_'' @ string_of_nat (nat now);
          signature =
            (if \<not> t_isGraduated token \<and> or_str transactionBuffer [] \<noteq> []
             then ''pending_user_signature''
             else if t_isGraduated token then or_str (rr_signature result) stamp
             else stamp);
          (trade, s1) = createTrade s now
             \<lparr> it_tokenId = t_id token, it_user = rq_user req,
               it_type = (if rq_isBuy req then Buy else Sell),
               it_amount = tokensAmount, it_price = tradePrice,
               it_tokensAmount = tokensAmount, it_signature = signature \<rparr>;
          updates = (\<lambda>t. t\<lparr> t_currentPrice := tradePrice,
                              t_volume24h := t_volume24h token + amountIn \<rparr>);
          updates' =
            (if \<not> t_isGraduated token then
               (if rr_isGraduated result = Some True
                then (\<lambda>t. (updates t)\<lparr> t_isGraduated := True, t_bondingCurveProgress := 100 \<rparr>)
                else if or_num (rr_solCollected result) 0 \<noteq> 0
                then (\<lambda>t. (updates t)\<lparr> t_bondingCurveProgress :=
                             min ((or_num (rr_solCollected result) 0 / 69) * 100) 100 \<rparr>)
                else updates)
             else updates);
          s2 = snd (updateToken s1 (t_id token) updates');
          s3 = snd (updatePortfolio s2 now (rq_user req) (t_id token) tokensAmount tradePrice)
      in (Success
            \<lparr> rp_success = True, rp_signature = signature, rp_tokensAmount = tokensAmount,
              rp_newPrice = tradePrice, rp_priceImpact = or_num (rr_priceImpact result) 0,
              rp_solCollected =
                (if t_isGraduated token then 0 else or_num (rr_solCollected result) 0),
              rp_isGraduated = (t_isGraduated token \<or> rr_isGraduated result = Some True),
              rp_transactionBuffer = transactionBuffer,
              rp_bondingCurve = (\<not> t_isGraduated token), rp_trade = trade \<rparr>,
          s3))"

text \<open>
  The route. \<open>jupiter\<close> is the answer of the Jupiter service, used for a graduated
  token. \<open>simple\<close> is the answer of \<^verbatim>\<open>simpleRaydiumTrading.executeTrade\<close>, used
  for any other token; it is \<open>None\<close> when the call throws (the file that holds the route
  does not import \<^verbatim>\<open>simpleRaydiumTrading\<close>).
\<close>

definition tradeRoute ::
  "MemStorage \<Rightarrow> int \<Rightarrow> TradeRequest \<Rightarrow> JupiterResult \<Rightarrow> SimpleRaydiumResult option
     \<Rightarrow> Response \<times> MemStorage" where
  "tradeRoute s now req jupiter simple =
     (if rq_tokenMint req = [] \<or> rq_amountIn req = 0 \<or> rq_user req = []
         \<or> rq_walletAddress req = []
      then (Failure 400 ''Missing required parameters'', s)
      else
        (case find_first (\<lambda>t. t_mintAddress t = Some (rq_tokenMint req)) (getAllTokens s) of
           None \<Rightarrow> (Failure 404 ''Token not found'', s)
         | Some token \<Rightarrow>
             (if t_isGraduated token then
                (if \<not> j_success jupiter
                 then (Failure 400 (or_str (j_error jupiter) ''Failed to execute Jupiter swap''), s)
                 else recordTrade s now req token (jupiterRouteResult jupiter))
              else
                (case simple of
                   None \<Rightarrow> (Failure 500 ''Trade execution failed'', s)
                 | Some tradeResult \<Rightarrow>
                     (if \<not> srr_success tradeResult
                      then (Failure 500 ''Trade execution failed'', s)
                      else recordTrade s now req token
                             (bondingRouteResult (rq_amountIn req) tradeResult))))))"

section \<open>The client-side trading service (RaydiumTradingService)\<close>

record PoolInfo =
  pi_tokenMint :: string
  pi_baseReserve :: rat
  pi_quoteReserve :: rat
  pi_currentPrice :: rat
  pi_marketCap :: rat
  pi_volume24h :: rat

record TradeParams =
  tp_tokenMint :: string
  tp_amountIn :: rat
  tp_amountOut :: rat
  tp_isBuy :: bool
  tp_slippage :: rat

record TradeResult =
  r_signature :: string
  r_success :: bool
  r_error :: "string option"
  r_amountIn :: rat
  r_amountOut :: rat
  r_priceImpact :: rat

text \<open>The body of the request \<^verbatim>\<open>POST /api/pools/update\<close> that follows a trade.\<close>

record PoolUpdate =
  pu_tokenMint :: string
  pu_amountIn :: rat
  pu_amountOut :: rat
  pu_isBuy :: bool

definition calculatePriceImpact :: "rat \<Rightarrow> rat \<Rightarrow> rat \<Rightarrow> bool \<Rightarrow> rat" where
  "calculatePriceImpact amountIn reserveIn reserveOut isBuy =
     (if isBuy then (amountIn / (reserveIn + amountIn)) * 100
      else (amountIn / (reserveOut + amountIn)) * 100)"

text \<open>The output amount \<^verbatim>\<open>executeTrade\<close> computes from the pool it fetched.\<close>

definition curveAmountOut :: "PoolInfo \<Rightarrow> rat \<Rightarrow> bool \<Rightarrow> rat" where
  "curveAmountOut poolInfo amountIn isBuy =
     (if isBuy then
        (let k = pi_baseReserve poolInfo * pi_quoteReserve poolInfo;
             newQuoteReserve = pi_quoteReserve poolInfo + amountIn;
             newBaseReserve = k / newQuoteReserve
         in pi_baseReserve poolInfo - newBaseReserve)
      else
        (let k = pi_baseReserve poolInfo * pi_quoteReserve poolInfo;
             newBaseReserve = pi_baseReserve poolInfo + amountIn;
             newQuoteReserve = k / newBaseReserve
         in pi_quoteReserve poolInfo - newQuoteReserve))"

definition tradeFailure :: "TradeParams \<Rightarrow> string \<Rightarrow> TradeResult" where
  "tradeFailure params message =
     \<lparr> r_signature = [], r_success = False, r_error = Some message,
       r_amountIn = tp_amountIn params, r_amountOut = 0, r_priceImpact = 0 \<rparr>"

text \<open>
  \<^verbatim>\<open>executeTrade(wallet, params)\<close>. \<open>hasKey\<close>: the wallet has a public key.
  \<open>fetched\<close>: what \<^verbatim>\<open>getPoolInfo\<close> returned (\<open>None\<close> is \<^verbatim>\<open>null\<close>). \<open>sent\<close>: the
  signature of the confirmed transaction, or \<open>Inl\<close> the message of the error thrown while
  signing, sending or confirming. The second component is the pool update the service
  posts, if it gets that far.
\<close>

definition executeTrade ::
  "bool \<Rightarrow> PoolInfo option \<Rightarrow> string + string \<Rightarrow> TradeParams
     \<Rightarrow> TradeResult \<times> PoolUpdate option" where
  "executeTrade hasKey fetched sent params =
     (if \<not> hasKey then (tradeFailure params ''Wallet not connected'', None)
      else
        (case fetched of
           None \<Rightarrow> (tradeFailure params ''Pool not found'', None)
         | Some poolInfo \<Rightarrow>
             (let amountIn = tp_amountIn params; isBuy = tp_isBuy params;
                  slippage = tp_slippage params;
                  priceImpact = calculatePriceImpact amountIn
                     (if isBuy then pi_quoteReserve poolInfo else pi_baseReserve poolInfo)
                     (if isBuy then pi_baseReserve poolInfo else pi_quoteReserve poolInfo)
                     isBuy;
                  amountOut = curveAmountOut poolInfo amountIn isBuy;
                  minAmountOut = amountOut * (1 - slippage / 100)
              in case sent of
                   Inl message \<Rightarrow> (tradeFailure params message, None)
                 | Inr signature \<Rightarrow>
                     (\<lparr> r_signature = signature, r_success = True, r_error = None,
                        r_amountIn = amountIn, r_amountOut = minAmountOut,
                        r_priceImpact = priceImpact \<rparr>,
                      Some \<lparr> pu_tokenMint = tp_tokenMint params, pu_amountIn = amountIn,
                             pu_amountOut = amountOut, pu_isBuy = isBuy \<rparr>))))"

section \<open>The launchpad's graduation poll (raydium-launchpad.ts)\<close>

record PoolData =
  pd_poolId :: string
  pd_symbol :: string
  pd_totalSupply :: rat
  pd_fundraisingGoal :: rat
  pd_quoteCollected :: rat
  pd_migrated :: bool
  pd_migrationTxId :: "string option"

text \<open>
  \<^verbatim>\<open>checkPoolStatus\<close> and \<^verbatim>\<open>migrateToAmm\<close> are \<^verbatim>\<open>async\<close>: the code between
  two \<^verbatim>\<open>await\<close>s runs without interruption, and at an \<^verbatim>\<open>await\<close> the run is
  suspended until the awaited call answers, while other callbacks run. A run of
  \<^verbatim>\<open>checkPoolStatus\<close> is therefore at one of these points: waiting for
  \<^verbatim>\<open>launchpad.getPoolInfo\<close>, waiting for \<^verbatim>\<open>launchpad.migrateToAmm\<close>, waiting for
  \<^verbatim>\<open>migrationResult.execute\<close>, or finished. (The SDK is initialised by
  \<^verbatim>\<open>launchToken\<close> before a pool is stored, so the two conditional
  \<^verbatim>\<open>await this.initializeRaydium()\<close> are not taken.)
\<close>

datatype pc = AwaitPoolInfo | AwaitMigration | AwaitExecute | Finished

text \<open>
  The answer of an awaited call: it threw; pool info (\<open>None\<close> is a missing info, else
  \<^verbatim>\<open>quoteCollected\<close> in lamports); a migration result (with or without
  \<^verbatim>\<open>execute\<close>); a transaction result (with or without \<^verbatim>\<open>txId\<close>).
\<close>

datatype reply = Threw | GotPoolInfo "rat option" | GotMigration bool | GotTx "string option"

text \<open>
  The service: the pool map, the pools with a running interval, the runs of
  \<^verbatim>\<open>checkPoolStatus\<close> started so far, and a log of the calls made to the venue:
  \<open>requested\<close> for \<^verbatim>\<open>launchpad.migrateToAmm\<close>, \<open>executed\<close> for
  \<^verbatim>\<open>migrationResult.execute\<close>, each with the pool id.
\<close>

record Launchpad =
  poolStorage :: "(string \<times> PoolData) list"
  pollingIntervals :: "string list"
  runs :: "(string \<times> pc) list"
  requested :: "string list"
  executed :: "string list"

definition newLaunchpad :: Launchpad where
  "newLaunchpad = \<lparr> poolStorage = [], pollingIntervals = [], runs = [],
     requested = [], executed = [] \<rparr>"

text \<open>The end of a successful \<^verbatim>\<open>launchToken\<close>: the pool is stored and polled.\<close>

definition registerPool :: "Launchpad \<Rightarrow> string \<Rightarrow> string \<Rightarrow> rat \<Rightarrow> rat \<Rightarrow> Launchpad" where
  "registerPool lp poolId symbol totalSupply fundraisingGoal =
     (let poolData = \<lparr> pd_poolId = poolId, pd_symbol = symbol, pd_totalSupply = totalSupply,
                       pd_fundraisingGoal = fundraisingGoal, pd_quoteCollected = 0,
                       pd_migrated = False, pd_migrationTxId = None \<rparr>
      in lp\<lparr> poolStorage := map_set poolId poolData (poolStorage lp),
             pollingIntervals := (if poolId \<in> set (pollingIntervals lp)
                                  then pollingIntervals lp
                                  else pollingIntervals lp @ [poolId]) \<rparr>)"

text \<open>\<^verbatim>\<open>checkPoolStatus\<close> up to its first \<^verbatim>\<open>await\<close>.\<close>

definition checkPoolStatus_begin :: "Launchpad \<Rightarrow> string \<Rightarrow> pc" where
  "checkPoolStatus_begin lp poolId =
     (case map_get (poolStorage lp) poolId of
        None \<Rightarrow> Finished
      | Some poolData \<Rightarrow> (if pd_migrated poolData then Finished else AwaitPoolInfo))"

text \<open>\<^verbatim>\<open>migrateToAmm\<close> up to its first \<^verbatim>\<open>await\<close>.\<close>

definition migrateToAmm_begin :: "Launchpad \<Rightarrow> string \<Rightarrow> pc \<times> Launchpad" where
  "migrateToAmm_begin lp poolId =
     (case map_get (poolStorage lp) poolId of
        None \<Rightarrow> (Finished, lp)
      | Some poolData \<Rightarrow>
          (if pd_migrated poolData then (Finished, lp)
           else (AwaitMigration, lp\<lparr> requested := requested lp @ [poolId] \<rparr>)))"

text \<open>
  A suspended run goes on with the answer to its call, up to its next \<^verbatim>\<open>await\<close>
  or its end. \<^verbatim>\<open>poolData\<close> is the stored object itself, so an assignment to one
  of its fields is an update of the stored entry. An error is caught and logged.
\<close>

definition resume :: "Launchpad \<Rightarrow> string \<Rightarrow> pc \<Rightarrow> reply \<Rightarrow> pc \<times> Launchpad" where
  "resume lp poolId point answer =
     (case (point, answer) of
        (AwaitPoolInfo, GotPoolInfo (Some lamports)) \<Rightarrow>
          (case map_get (poolStorage lp) poolId of
             None \<Rightarrow> (Finished, lp)
           | Some poolData \<Rightarrow>
               (let LAMPORTS_PER_SOL = (1000000000 :: rat);
                    quoteCollected = lamports / LAMPORTS_PER_SOL;
                    lp1 = lp\<lparr> poolStorage := map_set poolId
                             (poolData\<lparr> pd_quoteCollected := quoteCollected \<rparr>) (poolStorage lp) \<rparr>
                in if quoteCollected \<ge> pd_fundraisingGoal poolData
                   then migrateToAmm_begin lp1 poolId
                   else (Finished, lp1)))
      | (AwaitPoolInfo, _) \<Rightarrow> (Finished, lp)
      | (AwaitMigration, GotMigration True) \<Rightarrow>
          (AwaitExecute, lp\<lparr> executed := executed lp @ [poolId] \<rparr>)
      | (AwaitMigration, _) \<Rightarrow> (Finished, lp)
      | (AwaitExecute, GotTx (Some txId)) \<Rightarrow>
          (case map_get (poolStorage lp) poolId of
             None \<Rightarrow> (Finished, lp)
           | Some poolData \<Rightarrow>
               (Finished,
                lp\<lparr> poolStorage := map_set poolId
                       (poolData\<lparr> pd_migrated := True, pd_migrationTxId := Some txId \<rparr>)
                       (poolStorage lp),
                    pollingIntervals := removeAll poolId (pollingIntervals lp) \<rparr>))
      | (AwaitExecute, _) \<Rightarrow> (Finished, lp)
      | (Finished, _) \<Rightarrow> (Finished, lp))"

text \<open>
  What happens next in the process: the interval of a pool fires and starts a run, or the
  call a run waits for answers.
\<close>

datatype event = TimerFires string | Answers nat reply

definition step :: "Launchpad \<Rightarrow> event \<Rightarrow> Launchpad" where
  "step lp e =
     (case e of
        TimerFires poolId \<Rightarrow>
          (if poolId \<in> set (pollingIntervals lp)
           then lp\<lparr> runs := runs lp @ [(poolId, checkPoolStatus_begin lp poolId)] \<rparr>
           else lp)
      | Answers i answer \<Rightarrow>
          (if i < length (runs lp) then
             (let (poolId, point) = runs lp ! i;
                  (point', lp') = resume lp poolId point answer
              in lp'\<lparr> runs := (runs lp')[i := (poolId, point')] \<rparr>)
           else lp))"

definition run :: "Launchpad \<Rightarrow> event list \<Rightarrow> Launchpad" where
  "run lp es = foldl step lp es"

text \<open>The flag of a stored pool (false for a pool that is not stored).\<close>

definition migrated :: "Launchpad \<Rightarrow> string \<Rightarrow> bool" where
  "migrated lp poolId =
     (case map_get (poolStorage lp) poolId of
        Some poolData \<Rightarrow> pd_migrated poolData
      | None \<Rightarrow> False)"

section \<open>The client-side quote (PumpTradingEngine.getTradeQuote)\<close>

text \<open>
  The quote is given its arithmetic as a parameter: \<open>fl\<close> is applied to the exact result
  of every operation. With \<open>fl = double\<close> the arithmetic is that of the program; with
  \<open>fl = id\<close> it is exact.
\<close>

subsection \<open>The quote\<close>

text \<open>
  The quote that \<^verbatim>\<open>getTradeQuote\<close> computes from the pool it fetched (the field
  \<^verbatim>\<open>graduationProgress\<close>, copied from the pool, is left out).
\<close>

record TradeQuote =
  q_amountOut :: rat
  q_priceImpact :: rat
  q_newPrice :: rat
  q_currentPrice :: rat
  q_marketCap :: rat

definition tradeQuote :: "(rat \<Rightarrow> rat) \<Rightarrow> PoolInfo \<Rightarrow> rat \<Rightarrow> bool \<Rightarrow> TradeQuote" where
  "tradeQuote fl poolInfo amountIn isBuy =
     (let baseReserve = pi_baseReserve poolInfo;
          quoteReserve = pi_quoteReserve poolInfo;
          k = fl (baseReserve * quoteReserve);
          (amountOut, priceImpact) =
            (if isBuy then
               (let newQuoteReserve = fl (quoteReserve + amountIn);
                    newBaseReserve = fl (k / newQuoteReserve)
                in (fl (baseReserve - newBaseReserve), fl (fl (amountIn / quoteReserve) * 100)))
             else
               (let newBaseReserve = fl (baseReserve + amountIn);
                    newQuoteReserve = fl (k / newBaseReserve)
                in (fl (quoteReserve - newQuoteReserve), fl (fl (amountIn / baseReserve) * 100))));
          newPrice =
            (if isBuy then fl (fl (quoteReserve + amountIn) / fl (baseReserve - amountOut))
             else fl (fl (quoteReserve - amountOut) / fl (baseReserve + amountIn)))
      in \<lparr> q_amountOut = amountOut, q_priceImpact = priceImpact, q_newPrice = newPrice,
           q_currentPrice = pi_currentPrice poolInfo, q_marketCap = pi_marketCap poolInfo \<rparr>)"

text \<open>\<^verbatim>\<open>getTradeQuote\<close>: \<open>None\<close> (\<^verbatim>\<open>null\<close>) when the pool could not be fetched.\<close>

definition getTradeQuote ::
  "(rat \<Rightarrow> rat) \<Rightarrow> PoolInfo option \<Rightarrow> rat \<Rightarrow> bool \<Rightarrow> TradeQuote option" where
  "getTradeQuote fl fetched amountIn isBuy =
     map_option (\<lambda>poolInfo. tradeQuote fl poolInfo amountIn isBuy) fetched"



section \<open>Example data\<close>

text \<open>Inputs at which the statements below are evaluated.\<close>



definition exampleToken :: "bool \<Rightarrow> Token" where
  "exampleToken graduated =
     \<lparr> t_id = 1, t_symbol = ''TKN'', t_mintAddress = Some ''MINT'', t_currentPrice = 1 / 25,
       t_currentSupply = 0, t_marketCap = 0, t_volume24h = 0,
       t_bondingCurveProgress = (if graduated then 100 else 0), t_isGraduated = graduated,
       t_createdAt = 0 \<rparr>"

definition tokenStore :: "bool \<Rightarrow> MemStorage" where
  "tokenStore graduated = newMemStorage\<lparr> tokens := [(1, exampleToken graduated)] \<rparr>"

definition buyRequest :: TradeRequest where
  "buyRequest = \<lparr> rq_tokenMint = ''MINT'', rq_amountIn = 1, rq_isBuy = True,
     rq_user = ''alice'', rq_walletAddress = ''W'' \<rparr>"

definition jupiterAnswer :: "bool \<Rightarrow> JupiterResult" where
  "jupiterAnswer ok =
     (if ok then \<lparr> j_success = True, j_amountOut = Some 20, j_priceImpact = Some (1 / 2),
                   j_transactionBuffer = Some ''swap'', j_error = None \<rparr>
      else \<lparr> j_success = False, j_amountOut = None, j_priceImpact = None,
             j_transactionBuffer = None, j_error = Some ''Failed to get quote from Jupiter'' \<rparr>)"


definition defaultPoolInfo :: PoolInfo where
  "defaultPoolInfo = \<lparr> pi_tokenMint = ''MINT'', pi_baseReserve = 1073000000,
     pi_quoteReserve = 30, pi_currentPrice = 28 / 1000000, pi_marketCap = 30,
     pi_volume24h = 0 \<rparr>"

definition clientTrade :: "rat \<Rightarrow> bool \<Rightarrow> rat \<Rightarrow> TradeParams" where
  "clientTrade amountIn isBuy slippage =
     \<lparr> tp_tokenMint = ''MINT'', tp_amountIn = amountIn, tp_amountOut = 300000000,
       tp_isBuy = isBuy, tp_slippage = slippage \<rparr>"

text \<open>A pool launched with the goal of 69 SOL.\<close>

definition launched :: Launchpad where
  "launched = registerPool newLaunchpad ''POOL'' ''TKN'' 1000000000 69"

text \<open>
  Two polls of the same pool, the second starting while the first waits for its
  migration transaction: the pool info shows 69 SOL collected (in lamports) to both.
\<close>

definition overlappingPolls :: "event list" where
  "overlappingPolls =
     [TimerFires ''POOL'',
      Answers 0 (GotPoolInfo (Some 69000000000)),
      Answers 0 (GotMigration True),
      TimerFires ''POOL'',
      Answers 1 (GotPoolInfo (Some 69000000000)),
      Answers 1 (GotMigration True),
      Answers 0 (GotTx (Some ''tx1'')),
      Answers 1 (GotTx (Some ''tx2''))]"

text \<open>Two polls of the same pool, the second starting after the first has finished.\<close>

definition sequentialPolls :: "event list" where
  "sequentialPolls =
     [TimerFires ''POOL'',
      Answers 0 (GotPoolInfo (Some 69000000000)),
      Answers 0 (GotMigration True),
      Answers 0 (GotTx (Some ''tx1'')),
      TimerFires ''POOL'']"

section \<open>Properties of rounding\<close>














section \<open>Properties of the store\<close>

lemma find_first_Some: "find_first P xs = Some v \<Longrightarrow> v \<in> set xs \<and> P v"
  by (induction xs) (auto split: if_splits)

lemma map_of_map_set: "map_of (map_set k v es) = (map_of es)(k \<mapsto> v)"
  by (induction es) auto

lemma fst_map_set: "fst ` set (map_set k v es) = insert k (fst ` set es)"
  by (induction es) auto

lemma distinct_map_set: "distinct (map fst es) \<Longrightarrow> distinct (map fst (map_set k v es))"
  by (induction es) (auto simp: fst_map_set)

lemma list_all_map_set: "list_all Q es \<Longrightarrow> Q (k, v) \<Longrightarrow> list_all Q (map_set k v es)"
  by (induction es) auto


subsection \<open>The pool invariant\<close>



lemma pools_wf_updatePoolReserves:
  assumes "pools_wf s"
  shows "pools_wf (snd (updatePoolReserves s m b q))"
proof (cases "getPoolByMint s m")
  case None
  with assms show ?thesis by (simp add: updatePoolReserves_def)
next
  case (Some pool)
  then have "pool \<in> snd ` set (pools s)"
    using find_first_Some [of _ "map snd (pools s)" pool]
    by (auto simp: getPoolByMint_def map_values_def)
  then obtain e where e: "e \<in> set (pools s)" "snd e = pool" by auto
  with assms have "p_id pool < currentPoolId s"
    by (auto simp: pools_wf_def list_all_iff)
  with assms Some show ?thesis
    by (auto simp: updatePoolReserves_def pools_wf_def Let_def distinct_map_set
        intro!: list_all_map_set)
qed

subsection \<open>Listing the trades of a token\<close>

text \<open>
  Claim C9. For every token id, \<^verbatim>\<open>getTrades\<close> returns a list (hence finite) that
  holds exactly the stored trade records of that token, each as often as it is stored,
  ordered newest first by creation time.
\<close>

theorem getTrades_newest_first:
  "mset (getTrades s tokenId)
     = mset (filter (\<lambda>trade. tr_tokenId trade = tokenId) (map_values (trades s)))
   \<and> sorted_wrt (\<lambda>a b. tr_createdAt a \<ge> tr_createdAt b) (getTrades s tokenId)"
proof -
  let ?xs = "filter (\<lambda>trade. tr_tokenId trade = tokenId) (map_values (trades s))"
  have "sorted (map (\<lambda>t. - tr_createdAt t) (sort_key (\<lambda>t. - tr_createdAt t) ?xs))"
    by (rule sorted_sort_key)
  then have "sorted_wrt (\<lambda>a b. tr_createdAt a \<ge> tr_createdAt b)
               (sort_key (\<lambda>t. - tr_createdAt t) ?xs)"
    by (simp add: sorted_map)
  then show ?thesis by (simp add: getTrades_def)
qed

subsection \<open>Updating the reserves of a pool\<close>



section \<open>Properties of the server-side curve\<close>






section \<open>Properties of liquidity\<close>




section \<open>Properties of the bonding-curve services and of the trade route\<close>

lemma recordTrade_reply:
  "\<exists>reply. fst (recordTrade s now req token result) = Success reply
     \<and> rp_success reply
     \<and> rp_bondingCurve reply = (\<not> t_isGraduated token)
     \<and> rp_solCollected reply
          = (if t_isGraduated token then 0 else or_num (rr_solCollected result) 0)"
  by (simp add: recordTrade_def Let_def case_prod_beta)




subsection \<open>The route and a graduated token\<close>

lemma updateToken_frame:
  "trades (snd (updateToken s i u)) = trades s
   \<and> pools (snd (updateToken s i u)) = pools s
   \<and> currentTradeId (snd (updateToken s i u)) = currentTradeId s"
  by (simp add: updateToken_def Let_def split: option.splits)

lemma createTrade_effect:
  "trades (snd (createTrade s now it))
     = map_set (currentTradeId s) (fst (createTrade s now it)) (trades s)
   \<and> pools (snd (createTrade s now it)) = pools s
   \<and> tr_tokenId (fst (createTrade s now it)) = it_tokenId it
   \<and> tr_id (fst (createTrade s now it)) = currentTradeId s"
  by (simp add: createTrade_def Let_def updateToken_frame split: option.splits)

lemma updatePortfolio_frame:
  "trades (snd (updatePortfolio s now u i a p)) = trades s
   \<and> pools (snd (updatePortfolio s now u i a p)) = pools s"
  by (simp add: updatePortfolio_def Let_def split: option.splits)

lemma recordTrade_effect:
  "\<exists>reply. fst (recordTrade s now req token result) = Success reply
     \<and> rp_success reply
     \<and> tr_tokenId (rp_trade reply) = t_id token
     \<and> tr_id (rp_trade reply) = currentTradeId s
     \<and> trades (snd (recordTrade s now req token result))
          = map_set (currentTradeId s) (rp_trade reply) (trades s)
     \<and> pools (snd (recordTrade s now req token result)) = pools s"
  by (simp add: recordTrade_def Let_def case_prod_beta updateToken_frame createTrade_effect
      updatePortfolio_frame)

lemma recordTrade_pools: "pools (snd (recordTrade s now req token result)) = pools s"
  using recordTrade_effect [of s now req token result] by blast

lemma tradeRoute_pools: "pools (snd (tradeRoute s now req jupiter simple)) = pools s"
  by (simp add: tradeRoute_def recordTrade_pools split: option.splits)

text \<open>
  Claim C5 fails as stated: for the graduated token of mint \<open>MINT\<close> and a Jupiter swap
  that succeeds, the route answers with a success and the store, which held no trade,
  holds one trade record of the token afterwards.
\<close>

theorem graduated_trade_creates_record:
  "t_isGraduated (exampleToken True)
   \<and> isSuccess (fst (tradeRoute (tokenStore True) 1000 buyRequest (jupiterAnswer True) None))
   \<and> trades (tokenStore True) = []
   \<and> map (tr_tokenId \<circ> snd)
        (trades (snd (tradeRoute (tokenStore True) 1000 buyRequest (jupiterAnswer True) None)))
       = [1]
   \<and> map (tr_tokensAmount \<circ> snd)
        (trades (snd (tradeRoute (tokenStore True) 1000 buyRequest (jupiterAnswer True) None)))
       = [20]"
  by (simp add: tradeRoute_def recordTrade_def tokenStore_def exampleToken_def buyRequest_def
      jupiterAnswer_def newMemStorage_def getAllTokens_def map_values_def
      jupiterRouteResult_def or_num_def or_str_def createTrade_def getToken_def map_get_def
      updateToken_def updatePortfolio_def isSuccess_def Let_def)

text \<open>
  Claim C5, amended. For a well-formed request whose token has graduated, the route
  hands the trade to the Jupiter swap. When the swap fails, the route answers with the
  error status 400 and the store is unchanged, so no trade record is created. When the
  swap succeeds, the route answers with a success and stores one trade record of the
  token under the next trade id. In either case the pools, and with them the reserves,
  are unchanged.
\<close>

theorem graduated_token_routed_to_jupiter:
  assumes req: "rq_tokenMint req \<noteq> [] \<and> rq_amountIn req \<noteq> 0 \<and> rq_user req \<noteq> []
                 \<and> rq_walletAddress req \<noteq> []"
    and found: "find_first (\<lambda>t. t_mintAddress t = Some (rq_tokenMint req)) (getAllTokens s)
                  = Some token"
    and grad: "t_isGraduated token"
  shows "(\<not> j_success jupiter \<longrightarrow>
            tradeRoute s now req jupiter simple
              = (Failure 400 (or_str (j_error jupiter) ''Failed to execute Jupiter swap''), s))
       \<and> (j_success jupiter \<longrightarrow>
            (\<exists>reply. fst (tradeRoute s now req jupiter simple) = Success reply
               \<and> rp_success reply
               \<and> tr_tokenId (rp_trade reply) = t_id token
               \<and> trades (snd (tradeRoute s now req jupiter simple))
                    = map_set (currentTradeId s) (rp_trade reply) (trades s)))
       \<and> pools (snd (tradeRoute s now req jupiter simple)) = pools s"
proof (intro conjI impI)
  assume "\<not> j_success jupiter"
  with req found grad
  show "tradeRoute s now req jupiter simple
          = (Failure 400 (or_str (j_error jupiter) ''Failed to execute Jupiter swap''), s)"
    by (simp add: tradeRoute_def)
next
  assume "j_success jupiter"
  with req found grad
  have "tradeRoute s now req jupiter simple
          = recordTrade s now req token (jupiterRouteResult jupiter)"
    by (simp add: tradeRoute_def)
  with recordTrade_effect [of s now req token "jupiterRouteResult jupiter"]
  show "\<exists>reply. fst (tradeRoute s now req jupiter simple) = Success reply
               \<and> rp_success reply
               \<and> tr_tokenId (rp_trade reply) = t_id token
               \<and> trades (snd (tradeRoute s now req jupiter simple))
                    = map_set (currentTradeId s) (rp_trade reply) (trades s)"
    by auto
next
  show "pools (snd (tradeRoute s now req jupiter simple)) = pools s"
    by (rule tradeRoute_pools)
qed

text \<open>
  The graduated token of mint \<open>MINT\<close> and a buy of 1 SOL: with a failed swap the answer
  is the status 400 and the store stays as it is; with a successful swap the answer is a
  success and the store holds a trade record of token 1.
\<close>

theorem graduated_token_routed_to_jupiter_witness:
  "rq_tokenMint buyRequest \<noteq> [] \<and> rq_amountIn buyRequest \<noteq> 0 \<and> rq_user buyRequest \<noteq> []
   \<and> rq_walletAddress buyRequest \<noteq> []
   \<and> find_first (\<lambda>t. t_mintAddress t = Some (rq_tokenMint buyRequest))
        (getAllTokens (tokenStore True)) = Some (exampleToken True)
   \<and> t_isGraduated (exampleToken True)
   \<and> tradeRoute (tokenStore True) 1000 buyRequest (jupiterAnswer False) None
       = (Failure 400 ''Failed to get quote from Jupiter'', tokenStore True)
   \<and> (\<exists>reply. fst (tradeRoute (tokenStore True) 1000 buyRequest (jupiterAnswer True) None)
                  = Success reply
         \<and> rp_success reply \<and> tr_tokenId (rp_trade reply) = 1
         \<and> trades (snd (tradeRoute (tokenStore True) 1000 buyRequest (jupiterAnswer True) None))
              = [(1, rp_trade reply)])
   \<and> pools (snd (tradeRoute (tokenStore True) 1000 buyRequest (jupiterAnswer True) None)) = []"
proof -
  have req: "rq_tokenMint buyRequest \<noteq> [] \<and> rq_amountIn buyRequest \<noteq> 0
      \<and> rq_user buyRequest \<noteq> [] \<and> rq_walletAddress buyRequest \<noteq> []"
    by (simp add: buyRequest_def)
  have found: "find_first (\<lambda>t. t_mintAddress t = Some (rq_tokenMint buyRequest))
        (getAllTokens (tokenStore True)) = Some (exampleToken True)"
    by (simp add: buyRequest_def tokenStore_def exampleToken_def newMemStorage_def
        getAllTokens_def map_values_def)
  have grad: "t_isGraduated (exampleToken True)" by (simp add: exampleToken_def)
  note fails = graduated_token_routed_to_jupiter
    [OF req found grad, of "jupiterAnswer False" 1000 None]
  note works = graduated_token_routed_to_jupiter
    [OF req found grad, of "jupiterAnswer True" 1000 None]
  from fails have f: "tradeRoute (tokenStore True) 1000 buyRequest (jupiterAnswer False) None
       = (Failure 400 ''Failed to get quote from Jupiter'', tokenStore True)"
    by (simp add: jupiterAnswer_def or_str_def)
  from works obtain reply where
    "fst (tradeRoute (tokenStore True) 1000 buyRequest (jupiterAnswer True) None)
       = Success reply"
    "rp_success reply" "tr_tokenId (rp_trade reply) = 1"
    "trades (snd (tradeRoute (tokenStore True) 1000 buyRequest (jupiterAnswer True) None))
       = [(1, rp_trade reply)]"
    by (auto simp: jupiterAnswer_def tokenStore_def newMemStorage_def exampleToken_def)
  moreover from works
  have "pools (snd (tradeRoute (tokenStore True) 1000 buyRequest (jupiterAnswer True) None)) = []"
    by (simp add: tokenStore_def newMemStorage_def)
  ultimately show ?thesis using req found grad f by blast
qed

section \<open>Properties of the client-side trading service\<close>

text \<open>
  Claim C6 fails as stated: on the default pool, a buy of 10 with a slippage tolerance of
  50 percent computes 268250000 tokens, less than the 300000000 the caller names in
  \<^verbatim>\<open>params.amountOut\<close>; the trade succeeds all the same, posts a pool update of
  268250000 and returns 134125000, the computed amount reduced by the tolerance.
\<close>

theorem executeTrade_returns_reduced_amount:
  "executeTrade True (Some defaultPoolInfo) (Inr ''sig'') (clientTrade 10 True 50)
   = (\<lparr> r_signature = ''sig'', r_success = True, r_error = None, r_amountIn = 10,
        r_amountOut = 134125000, r_priceImpact = 25 \<rparr>,
      Some \<lparr> pu_tokenMint = ''MINT'', pu_amountIn = 10, pu_amountOut = 268250000,
             pu_isBuy = True \<rparr>)"
  by (simp add: executeTrade_def defaultPoolInfo_def clientTrade_def curveAmountOut_def
      calculatePriceImpact_def Let_def)

text \<open>
  Claim C6, amended. \<^verbatim>\<open>executeTrade\<close> takes a slippage percentage and no minimal
  amount, and never fails on slippage: it succeeds exactly when the wallet has a key, the
  pool is found and the transaction is signed, sent and confirmed. A successful trade
  posts a pool update that carries the full computed amount; a failed one posts none.
\<close>

theorem executeTrade_no_slippage_check:
  "r_success (fst (executeTrade hasKey fetched sent params))
     = (hasKey \<and> fetched \<noteq> None \<and> \<not> isl sent)
   \<and> (r_success (fst (executeTrade hasKey fetched sent params)) \<longrightarrow>
        map_option pu_amountOut (snd (executeTrade hasKey fetched sent params))
          = Some (curveAmountOut (the fetched) (tp_amountIn params) (tp_isBuy params)))
   \<and> (\<not> r_success (fst (executeTrade hasKey fetched sent params)) \<longrightarrow>
        snd (executeTrade hasKey fetched sent params) = None)"
  by (auto simp: executeTrade_def tradeFailure_def Let_def split: option.splits sum.splits)

text \<open>
  The buy of 10 on the default pool succeeds with any tolerance, here 50 percent, and
  posts 268250000; without a wallet key it fails and posts nothing.
\<close>

theorem executeTrade_no_slippage_check_witness:
  "r_success (fst (executeTrade True (Some defaultPoolInfo) (Inr ''sig'') (clientTrade 10 True 50)))
   \<and> map_option pu_amountOut
        (snd (executeTrade True (Some defaultPoolInfo) (Inr ''sig'') (clientTrade 10 True 50)))
       = Some 268250000
   \<and> \<not> r_success (fst (executeTrade False (Some defaultPoolInfo) (Inr ''sig'') (clientTrade 10 True 50)))
   \<and> snd (executeTrade False (Some defaultPoolInfo) (Inr ''sig'') (clientTrade 10 True 50)) = None"
  using executeTrade_no_slippage_check
      [of True "Some defaultPoolInfo" "Inr ''sig''" "clientTrade 10 True 50"]
    executeTrade_no_slippage_check
      [of False "Some defaultPoolInfo" "Inr ''sig''" "clientTrade 10 True 50"]
  by (simp add: curveAmountOut_def clientTrade_def defaultPoolInfo_def Let_def)

section \<open>Selling\<close>




section \<open>Properties of the graduation poll\<close>

text \<open>
  The flag \<^verbatim>\<open>migrated\<close> of a pool is never reset: once it is set, it stays set
  through whatever happens next.
\<close>

lemma map_get_map_set: "map_get (map_set k v m) k' = (if k' = k then Some v else map_get m k')"
  by (simp add: map_get_def map_of_map_set)

lemma migrateToAmm_begin_migrated:
  "migrated lp p \<Longrightarrow> migrated (snd (migrateToAmm_begin lp poolId)) p"
  by (auto simp: migrateToAmm_begin_def migrated_def split: option.splits)

lemma resume_migrated:
  assumes "migrated lp p"
  shows "migrated (snd (resume lp poolId point answer)) p"
proof (cases point)
  case AwaitPoolInfo
  show ?thesis
  proof (cases answer)
    case (GotPoolInfo info)
    with AwaitPoolInfo assms show ?thesis
      by (cases info)
        (auto simp: resume_def migrateToAmm_begin_def migrated_def map_get_map_set Let_def
          split: option.splits)
  qed (use AwaitPoolInfo assms in \<open>simp_all add: resume_def\<close>)
next
  case AwaitMigration
  with assms show ?thesis
    by (cases answer) (auto simp: resume_def migrated_def split: bool.splits)
next
  case AwaitExecute
  show ?thesis
  proof (cases answer)
    case (GotTx tx)
    with AwaitExecute assms show ?thesis
      by (cases tx) (auto simp: resume_def migrated_def map_get_map_set split: option.splits)
  qed (use AwaitExecute assms in \<open>simp_all add: resume_def\<close>)
next
  case Finished
  with assms show ?thesis by (simp add: resume_def)
qed

lemma step_migrated: "migrated lp p \<Longrightarrow> migrated (step lp e) p"
proof (cases e)
  case (TimerFires poolId)
  assume "migrated lp p"
  with TimerFires show ?thesis by (simp add: step_def migrated_def)
next
  case (Answers i answer)
  assume m: "migrated lp p"
  show ?thesis
  proof (cases "i < length (runs lp)")
    case True
    obtain poolId point where r: "runs lp ! i = (poolId, point)" by (cases "runs lp ! i")
    from resume_migrated [OF m, of poolId point answer] True r Answers
    show ?thesis by (simp add: step_def migrated_def case_prod_beta Let_def)
  next
    case False
    with m Answers show ?thesis by (simp add: step_def)
  qed
qed

lemma run_migrated: "migrated lp p \<Longrightarrow> migrated (run lp es) p"
  unfolding run_def by (induction es arbitrary: lp) (simp_all add: step_migrated)

text \<open>A run that starts once the pool is migrated ends at its first check.\<close>

lemma checkPoolStatus_begin_migrated:
  "migrated lp poolId \<Longrightarrow> checkPoolStatus_begin lp poolId = Finished"
  by (auto simp: checkPoolStatus_begin_def migrated_def split: option.splits)

text \<open>
  When the second poll starts after the first has finished, the flag stops it: the
  migration is executed once, and the interval is cleared.
\<close>

lemma sequential_polls_migrate_once:
  "executed (run launched sequentialPolls) = [''POOL'']
   \<and> migrated (run launched sequentialPolls) ''POOL''
   \<and> pollingIntervals (run launched sequentialPolls) = []"
  by (simp add: run_def step_def resume_def migrateToAmm_begin_def checkPoolStatus_begin_def
      launched_def sequentialPolls_def registerPool_def newLaunchpad_def map_get_def
      migrated_def Let_def)

text \<open>
  Claim C4. The claim does not hold of the program: when the interval of a pool fires
  again while a first run of \<^verbatim>\<open>checkPoolStatus\<close> still waits for its migration
  transaction, both runs pass the \<^verbatim>\<open>migrated\<close> checks, and the migration is requested
  and executed twice for the same pool.
\<close>

theorem overlapping_polls_migrate_twice:
  "executed (run launched overlappingPolls) = [''POOL'', ''POOL'']
   \<and> requested (run launched overlappingPolls) = [''POOL'', ''POOL'']
   \<and> map (pd_migrationTxId \<circ> snd) (poolStorage (run launched overlappingPolls))
       = [Some ''tx2'']
   \<and> map snd (runs (run launched overlappingPolls)) = [Finished, Finished]"
  by (simp add: run_def step_def resume_def migrateToAmm_begin_def checkPoolStatus_begin_def
      launched_def overlappingPolls_def registerPool_def newLaunchpad_def map_get_def Let_def)

section \<open>Properties of the client-side quote\<close>

subsection \<open>Buying and selling back\<close>









end
